theory Spec2Isabelle
  imports Complex_Main
begin

section \<open>JavaScript values used by the two scripts\<close>

text \<open>
  Numbers. A JavaScript number is a binary64 float; the model keeps the three special
  values apart and reads every finite number as the exact real it denotes (no rounding,
  no negative zero).
\<close>

datatype jsnum = NaN | PosInf | NegInf | Num real

text \<open>
  Primitive values held by the properties of a mission object. Strings are lists of
  code units; a \<open>char\<close> stands for a code unit in the range 0..255.
\<close>

datatype jsval = Null | Bool bool | Number jsnum | String string

datatype js_error = SyntaxError | TypeError

text \<open>Strict equality \<open>===\<close>: same type and same value, and \<open>NaN\<close> equals nothing.\<close>

fun js_strict_eq :: "jsval \<Rightarrow> jsval \<Rightarrow> bool" where
  "js_strict_eq (Number a) (Number b) = (a \<noteq> NaN \<and> b \<noteq> NaN \<and> a = b)"
| "js_strict_eq a b = (a = b)"

subsection \<open>Strings: \<open>trim\<close>, \<open>Number\<close> and \<open>parseInt\<close>\<close>

text \<open>
  White space and line terminators among the code units 0..255: TAB, LF, VT, FF, CR,
  SP and NBSP.
\<close>

definition is_ws :: "char \<Rightarrow> bool" where
  "is_ws c = ((of_char c :: nat) \<in> {9, 10, 11, 12, 13, 32, 160})"

definition js_trim :: "string \<Rightarrow> string" where
  "js_trim s = rev (dropWhile is_ws (rev (dropWhile is_ws s)))"

definition is_digit :: "char \<Rightarrow> bool" where
  "is_digit c = (48 \<le> (of_char c :: nat) \<and> (of_char c :: nat) \<le> 57)"

text \<open>The value of a digit in radix up to 16 (\<open>None\<close> when the code unit is no digit).\<close>

definition hex_val :: "char \<Rightarrow> nat option" where
  "hex_val c =
     (let n = (of_char c :: nat) in
      if 48 \<le> n \<and> n \<le> 57 then Some (n - 48)
      else if 97 \<le> n \<and> n \<le> 102 then Some (n - 87)
      else if 65 \<le> n \<and> n \<le> 70 then Some (n - 55)
      else None)"

definition is_radix_digit :: "nat \<Rightarrow> char \<Rightarrow> bool" where
  "is_radix_digit r c = (case hex_val c of None \<Rightarrow> False | Some v \<Rightarrow> v < r)"

definition radix_val :: "nat \<Rightarrow> string \<Rightarrow> nat" where
  "radix_val r ds = foldl (\<lambda>a c. r * a + (case hex_val c of None \<Rightarrow> 0 | Some v \<Rightarrow> v)) 0 ds"

text \<open>
  \<open>ExponentPart\<close> of a decimal literal: \<open>e\<close> or \<open>E\<close>, an optional sign, one or more
  digits up to the end of the literal. The result is the power of ten to multiply by.
\<close>

definition exponent_part :: "string \<Rightarrow> real option" where
  "exponent_part s =
     (case s of
        [] \<Rightarrow> Some 1
      | c # t \<Rightarrow>
          if c = CHR ''e'' \<or> c = CHR ''E'' then
            (let neg = (t \<noteq> [] \<and> hd t = CHR ''-'');
                 ds = (if t \<noteq> [] \<and> (hd t = CHR ''-'' \<or> hd t = CHR ''+'') then tl t else t)
             in if ds \<noteq> [] \<and> list_all is_digit ds
                then Some (if neg then 1 / 10 ^ radix_val 10 ds else 10 ^ radix_val 10 ds)
                else None)
          else None)"

text \<open>
  \<open>StrUnsignedDecimalLiteral\<close>: \<open>Infinity\<close>, or digits with an optional fraction and
  an optional exponent, with at least one digit before the exponent.
\<close>

definition unsigned_decimal :: "string \<Rightarrow> jsnum" where
  "unsigned_decimal u =
     (if u = ''Infinity'' then PosInf
      else
        let ip = takeWhile is_digit u;
            r1 = dropWhile is_digit u;
            dot = (r1 \<noteq> [] \<and> hd r1 = CHR ''.'');
            fp = (if dot then takeWhile is_digit (tl r1) else []);
            r2 = (if dot then dropWhile is_digit (tl r1) else r1)
        in if ip = [] \<and> fp = [] then NaN
           else case exponent_part r2 of
                  None \<Rightarrow> NaN
                | Some p \<Rightarrow>
                    Num ((real (radix_val 10 ip)
                          + real (radix_val 10 fp) / 10 ^ length fp) * p))"

definition js_neg :: "jsnum \<Rightarrow> jsnum" where
  "js_neg x = (case x of NaN \<Rightarrow> NaN | PosInf \<Rightarrow> NegInf | NegInf \<Rightarrow> PosInf
               | Num r \<Rightarrow> Num (- r))"

text \<open>\<open>0x\<close>, \<open>0o\<close> and \<open>0b\<close> literals: the prefix, then one or more digits of the radix.\<close>

definition radix_prefix :: "string \<Rightarrow> nat option" where
  "radix_prefix t =
     (case t of
        c0 # c1 # _ \<Rightarrow>
          if c0 \<noteq> CHR ''0'' then None
          else if c1 = CHR ''x'' \<or> c1 = CHR ''X'' then Some 16
          else if c1 = CHR ''o'' \<or> c1 = CHR ''O'' then Some 8
          else if c1 = CHR ''b'' \<or> c1 = CHR ''B'' then Some 2
          else None
      | _ \<Rightarrow> None)"

text \<open>
  \<open>Number(s)\<close> for a string, which is also the coercion that \<open>isNaN(s)\<close>,
  \<open>s < n\<close> and \<open>s > n\<close> apply to a string operand.
\<close>

definition js_Number :: "string \<Rightarrow> jsnum" where
  "js_Number s =
     (let t = js_trim s in
      if t = [] then Num 0
      else case radix_prefix t of
             Some r \<Rightarrow>
               (let ds = drop 2 t in
                if ds \<noteq> [] \<and> list_all (is_radix_digit r) ds
                then Num (real (radix_val r ds)) else NaN)
           | None \<Rightarrow>
               if hd t = CHR ''+'' then unsigned_decimal (tl t)
               else if hd t = CHR ''-'' then js_neg (unsigned_decimal (tl t))
               else unsigned_decimal t)"

text \<open>
  \<open>parseInt(s)\<close> with no radix argument: leading white space is dropped, then an
  optional sign, then \<open>0x\<close> selects radix 16, and the longest prefix of digits is read;
  whatever follows is ignored, and no digit at all gives \<open>NaN\<close>.
\<close>

definition parseInt_text :: "string \<Rightarrow> jsnum" where
  "parseInt_text s =
     (let t = dropWhile is_ws s;
          neg = (t \<noteq> [] \<and> hd t = CHR ''-'');
          u = (if t \<noteq> [] \<and> (hd t = CHR ''-'' \<or> hd t = CHR ''+'') then tl t else t);
          hex = (radix_prefix u = Some 16);
          r = (if hex then 16 else 10);
          z = takeWhile (is_radix_digit r) (if hex then drop 2 u else u)
      in if z = [] then NaN
         else Num (if neg then - real (radix_val r z) else real (radix_val r z)))"

text \<open>
  The decimal numeral of a natural number, as \<open>String(n)\<close> prints an integer below
  \<open>10^21\<close>.
\<close>

fun decimal_of_nat :: "nat \<Rightarrow> string" where
  "decimal_of_nat n =
     (if n < 10 then [''0123456789'' ! n]
      else decimal_of_nat (n div 10) @ [''0123456789'' ! (n mod 10)])"

text \<open>
  The argument that reaches \<open>parseInt\<close> in the source is either a string read from a
  form field or one of the integer literals of the default missions; \<open>parseInt\<close>
  converts it to a string first.
\<close>

datatype year_arg = YearText string | YearLiteral nat

fun js_parseInt :: "year_arg \<Rightarrow> jsnum" where
  "js_parseInt (YearText s) = parseInt_text s"
| "js_parseInt (YearLiteral n) = parseInt_text (decimal_of_nat n)"


text \<open>The comparisons \<open>x < n\<close> and \<open>x > n\<close> of a number with a finite number.\<close>

fun js_lt :: "jsnum \<Rightarrow> real \<Rightarrow> bool" where
  "js_lt (Num r) n = (r < n)"
| "js_lt NegInf n = True"
| "js_lt PosInf n = False"
| "js_lt NaN n = False"

fun js_gt :: "jsnum \<Rightarrow> real \<Rightarrow> bool" where
  "js_gt (Num r) n = (n < r)"
| "js_gt PosInf n = True"
| "js_gt NegInf n = False"
| "js_gt NaN n = False"

section \<open>script.js: the mission records\<close>

definition MIN_YEAR :: real where
  "MIN_YEAR = 1957"

definition MAX_YEAR :: real where
  "MAX_YEAR = 2100"

text \<open>
  A mission object: the six own properties that the \<open>Mission\<close> constructor sets, each
  holding a primitive value.
\<close>

record mission =
  id' :: jsval
  name :: jsval
  destination :: jsval
  year :: jsval
  status :: jsval
  createdAt :: jsval

text \<open>
  What one run of the constructor reads from its environment: \<open>Date.now()\<close>,
  \<open>Math.random()\<close> and \<open>new Date().toISOString()\<close>.
\<close>

record stamp =
  date_now :: real
  math_random :: real
  iso_string :: string

definition Mission :: "stamp \<Rightarrow> string \<Rightarrow> string \<Rightarrow> year_arg \<Rightarrow> string \<Rightarrow> mission" where
  "Mission k nm dest yr st =
     \<lparr> id' = Number (Num (date_now k + math_random k)),
       name = String nm,
       destination = String dest,
       year = Number (js_parseInt yr),
       status = String st,
       createdAt = String (iso_string k) \<rparr>"

definition getDefaultMissions :: "stamp \<Rightarrow> stamp \<Rightarrow> stamp \<Rightarrow> mission list" where
  "getDefaultMissions k1 k2 k3 =
     [ Mission k1 ''Voyager 1'' ''Espacio Interestelar'' (YearLiteral 1977) ''active'',
       Mission k2 ''Apollo 11'' ''Luna'' (YearLiteral 1969) ''completed'',
       Mission k3 ''Mars 2020'' ''Marte'' (YearLiteral 2020) ''active'' ]"

subsection \<open>The storage item and JSON\<close>

text \<open>
  The JSON data model. \<open>JSON.stringify\<close> writes a text that denotes such a value and
  \<open>JSON.parse\<close> reads one back; the characters of the text are the platform's business.
\<close>

datatype json =
    JNull
  | JBool bool
  | JNumber real
  | JString string
  | JArray "json list"
  | JObject "(string \<times> json) list"

text \<open>
  The string stored under \<open>MISSIONS_STORAGE_KEY\<close>, by what the source can observe of it:
  the empty string (the only falsy string), a non-empty string that \<open>JSON.parse\<close>
  rejects, or a string that \<open>JSON.parse\<close> reads as a value.
\<close>

datatype storage_item = EmptyText | Unparseable | JSON_text json

text \<open>\<open>JSON.stringify\<close> writes a number that is not finite as \<open>null\<close>.\<close>

fun json_of_val :: "jsval \<Rightarrow> json" where
  "json_of_val Null = JNull"
| "json_of_val (Bool b) = JBool b"
| "json_of_val (Number (Num r)) = JNumber r"
| "json_of_val (Number _) = JNull"
| "json_of_val (String s) = JString s"

definition mission_keys :: "string list" where
  "mission_keys = [''id'', ''name'', ''destination'', ''year'', ''status'', ''createdAt'']"

definition json_of_mission :: "mission \<Rightarrow> json" where
  "json_of_mission m =
     JObject (zip mission_keys
       (map json_of_val [id' m, name m, destination m, year m, status m, createdAt m]))"

definition JSON_stringify :: "mission list \<Rightarrow> storage_item" where
  "JSON_stringify ms = JSON_text (JArray (map json_of_mission ms))"

fun val_of_json :: "json \<Rightarrow> jsval option" where
  "val_of_json JNull = Some Null"
| "val_of_json (JBool b) = Some (Bool b)"
| "val_of_json (JNumber r) = Some (Number (Num r))"
| "val_of_json (JString s) = Some (String s)"
| "val_of_json _ = None"

text \<open>
  The object that \<open>JSON.parse\<close> builds for a JSON object with the six mission
  properties, each primitive; \<open>None\<close> for a value of any other shape.
\<close>

definition mission_of_json :: "json \<Rightarrow> mission option" where
  "mission_of_json j =
     (case j of
        JObject kvs \<Rightarrow>
          if map fst kvs = mission_keys then
            (case those (map (val_of_json \<circ> snd) kvs) of
               None \<Rightarrow> None
             | Some vs \<Rightarrow>
                 Some \<lparr> id' = vs ! 0, name = vs ! 1, destination = vs ! 2,
                        year = vs ! 3, status = vs ! 4, createdAt = vs ! 5 \<rparr>)
          else None
      | _ \<Rightarrow> None)"

text \<open>
  The outcome of \<open>loadMissions\<close>: an exception, a list of mission objects, or some
  other parsed value, which the source installs as it is (nothing checks its shape).
\<close>

datatype load_result = Throws js_error | Returns "mission list" | ReturnsOther json

text \<open>What \<open>JSON.parse\<close> returns for a text that denotes the value \<open>j\<close>.\<close>

definition JSON_parse :: "json \<Rightarrow> load_result" where
  "JSON_parse j =
     (case j of
        JArray js \<Rightarrow>
          (case those (map mission_of_json js) of
             Some ms \<Rightarrow> Returns ms
           | None \<Rightarrow> ReturnsOther j)
      | _ \<Rightarrow> ReturnsOther j)"

text \<open>
  \<open>loadMissions\<close>: \<open>stored ? JSON.parse(stored) : this.getDefaultMissions()\<close>, where
  \<open>getItem\<close> gives \<open>null\<close> for a missing key. No handler surrounds the call, here or in
  any caller.
\<close>

definition loadMissions ::
  "stamp \<Rightarrow> stamp \<Rightarrow> stamp \<Rightarrow> storage_item option \<Rightarrow> load_result" where
  "loadMissions k1 k2 k3 stored =
     (case stored of
        None \<Rightarrow> Returns (getDefaultMissions k1 k2 k3)
      | Some EmptyText \<Rightarrow> Returns (getDefaultMissions k1 k2 k3)
      | Some Unparseable \<Rightarrow> Throws SyntaxError
      | Some (JSON_text j) \<Rightarrow> JSON_parse j)"


subsection \<open>The mission manager\<close>

text \<open>
  The state of a \<open>MissionManager\<close> and of what it touches: the array \<open>this.missions\<close>,
  the storage item, \<open>this.editingMissionId\<close>, the \<open>textContent\<close> of the error elements
  by element id (an id that is not in the map has no element in the document), and
  whether the edit dialog is displayed. \<open>renderMissions\<close> writes to the list container
  only, which is no part of this state.
\<close>

record manager =
  missions :: "mission list"
  storage :: "storage_item option"
  editingMissionId :: jsval
  errors :: "string \<rightharpoonup> string"
  modal_open :: bool

record formData =
  fd_name :: string
  fd_destination :: string
  fd_year :: string
  fd_status :: string

definition saveMissions :: "manager \<Rightarrow> manager" where
  "saveMissions st = st\<lparr>storage := Some (JSON_stringify (missions st))\<rparr>"


text \<open>
  \<open>validateField\<close>: writing \<open>textContent\<close> of an element that does not exist throws a
  TypeError; both branches write.
\<close>

definition validateField ::
  "string \<Rightarrow> string \<Rightarrow> string \<Rightarrow> (string \<rightharpoonup> string)
     \<Rightarrow> js_error + bool \<times> (string \<rightharpoonup> string)" where
  "validateField v errorElementId errorMessage els =
     (case els errorElementId of
        None \<Rightarrow> Inl TypeError
      | Some _ \<Rightarrow>
          if v = [] \<or> js_trim v = []
          then Inr (False, els(errorElementId \<mapsto> errorMessage))
          else Inr (True, els(errorElementId \<mapsto> [])))"

definition year_required :: string where
  "year_required = ''El a'' @ [CHR 0xF1] @ ''o es requerido''"

definition year_range :: string where
  "year_range = ''El a'' @ [CHR 0xF1] @ ''o debe estar entre 1957 y 2100''"

definition validateYear ::
  "string \<Rightarrow> string \<Rightarrow> (string \<rightharpoonup> string) \<Rightarrow> js_error + bool \<times> (string \<rightharpoonup> string)" where
  "validateYear yr errorElementId els =
     (case els errorElementId of
        None \<Rightarrow> Inl TypeError
      | Some _ \<Rightarrow>
          if yr = [] \<or> js_Number yr = NaN
          then Inr (False, els(errorElementId \<mapsto> year_required))
          else if js_lt (js_Number yr) MIN_YEAR \<or> js_gt (js_Number yr) MAX_YEAR
          then Inr (False, els(errorElementId \<mapsto> year_range))
          else Inr (True, els(errorElementId \<mapsto> [])))"

text \<open>\<open>validateForm\<close> runs the four checks one after the other and then combines them.\<close>

definition validateForm ::
  "formData \<Rightarrow> string \<Rightarrow> (string \<rightharpoonup> string) \<Rightarrow> js_error + bool \<times> (string \<rightharpoonup> string)" where
  "validateForm fd prefix els =
     (case validateField (fd_name fd) (prefix @ ''name-error'') ''El nombre es requerido'' els of
        Inl e \<Rightarrow> Inl e
      | Inr (NAME_VALID, els1) \<Rightarrow>
     (case validateField (fd_destination fd) (prefix @ ''destination-error'')
             ''El destino es requerido'' els1 of
        Inl e \<Rightarrow> Inl e
      | Inr (DESTINATION_VALID, els2) \<Rightarrow>
     (case validateYear (fd_year fd) (prefix @ ''year-error'') els2 of
        Inl e \<Rightarrow> Inl e
      | Inr (YEAR_VALID, els3) \<Rightarrow>
     (case validateField (fd_status fd) (prefix @ ''status-error'')
             ''El estado es requerido'' els3 of
        Inl e \<Rightarrow> Inl e
      | Inr (STATUS_VALID, els4) \<Rightarrow>
          Inr (NAME_VALID \<and> DESTINATION_VALID \<and> YEAR_VALID \<and> STATUS_VALID, els4)))))"

definition createMission ::
  "stamp \<Rightarrow> string \<Rightarrow> string \<Rightarrow> string \<Rightarrow> string \<Rightarrow> manager \<Rightarrow> manager" where
  "createMission k nm dest yr stat st =
     (let m = Mission k nm dest (YearText yr) stat
      in saveMissions (st\<lparr>missions := missions st @ [m]\<rparr>))"

text \<open>
  \<open>updateMission\<close>: \<open>find\<close> gives the first object whose id is strictly equal to the
  argument, and the assignments change that object where it sits in the array.
\<close>

definition updateMission ::
  "jsval \<Rightarrow> string \<Rightarrow> string \<Rightarrow> string \<Rightarrow> string \<Rightarrow> manager \<Rightarrow> manager" where
  "updateMission i nm dest yr stat st =
     (case find (\<lambda>m. js_strict_eq (id' m) i) (missions st) of
        None \<Rightarrow> st
      | Some m \<Rightarrow>
          (let pos = length (takeWhile (\<lambda>m. \<not> js_strict_eq (id' m) i) (missions st));
               m' = m\<lparr>name := String nm, destination := String dest,
                       year := Number (js_parseInt (YearText yr)), status := String stat\<rparr>
           in saveMissions (st\<lparr>missions := (missions st)[pos := m']\<rparr>)))"

definition deleteMission :: "jsval \<Rightarrow> manager \<Rightarrow> manager" where
  "deleteMission i st =
     saveMissions (st\<lparr>missions := filter (\<lambda>m. \<not> js_strict_eq (id' m) i) (missions st)\<rparr>)"

text \<open>
  \<open>handleSubmit\<close> (create) and \<open>handleEditSubmit\<close> (update), given the values read from
  the form fields. A TypeError can only come out of the validation, before anything is
  created or updated; the result \<open>Inl\<close> says that the handler was left by it and does
  not follow the document any further.
\<close>

definition handleSubmit :: "stamp \<Rightarrow> formData \<Rightarrow> manager \<Rightarrow> js_error + manager" where
  "handleSubmit k fd st =
     (case validateForm fd [] (errors st) of
        Inl e \<Rightarrow> Inl e
      | Inr (ok, els) \<Rightarrow>
          if ok
          then Inr (createMission k (fd_name fd) (fd_destination fd) (fd_year fd) (fd_status fd)
                      (st\<lparr>errors := els\<rparr>))
          else Inr (st\<lparr>errors := els\<rparr>))"



section \<open>parallax.js: the parallax controller\<close>

text \<open>
  Arithmetic on numbers that may leave the finite ones. A divisor that is zero is the
  positive zero here: \<open>window.innerHeight\<close> itself, or the difference of two equal
  numbers.
\<close>

definition js_div :: "real \<Rightarrow> real \<Rightarrow> jsnum" where
  "js_div a d =
     (if d \<noteq> 0 then Num (a / d)
      else if a = 0 then NaN
      else if 0 < a then PosInf else NegInf)"

definition js_mul :: "jsnum \<Rightarrow> real \<Rightarrow> jsnum" where
  "js_mul x b =
     (case x of
        Num a \<Rightarrow> Num (a * b)
      | NaN \<Rightarrow> NaN
      | PosInf \<Rightarrow> (if b = 0 then NaN else if 0 < b then PosInf else NegInf)
      | NegInf \<Rightarrow> (if b = 0 then NaN else if 0 < b then NegInf else PosInf))"

definition js_add :: "real \<Rightarrow> jsnum \<Rightarrow> jsnum" where
  "js_add a x = (case x of Num b \<Rightarrow> Num (a + b) | _ \<Rightarrow> x)"

text \<open>\<open>Math.min(x, b)\<close> for a finite \<open>b\<close>.\<close>

definition js_min :: "jsnum \<Rightarrow> real \<Rightarrow> jsnum" where
  "js_min x b =
     (case x of Num a \<Rightarrow> Num (min a b) | NaN \<Rightarrow> NaN | PosInf \<Rightarrow> Num b | NegInf \<Rightarrow> NegInf)"

text \<open>What \<open>getBoundingClientRect\<close> reports for a planet, as far as the source reads it.\<close>

record rect =
  top :: real
  height :: real

text \<open>\<open>translate(tx px, ty px) rotate(rot deg)\<close>\<close>

record transform =
  tx :: jsnum
  ty :: jsnum
  rot :: jsnum

text \<open>The \<open>width\<close> style of the progress element: not set yet, or \<open>p%\<close>.\<close>

datatype css_width = Unset | Percent jsnum

text \<open>
  The controller's fields (finite numbers), the transform written to each planet, and
  the progress element (\<open>None\<close> when the document has no element \<open>scroll-progress\<close>).
\<close>

record parallax =
  scrollY :: real
  windowHeight :: real
  documentHeight :: real
  mouseX :: real
  mouseY :: real
  targetMouseX :: real
  targetMouseY :: real
  transforms :: "transform list"
  progressBar :: "css_width option"

definition planet_transform :: "parallax \<Rightarrow> nat \<Rightarrow> rect \<Rightarrow> transform" where
  "planet_transform st index r =
     (let planetCenterY = top r + height r / 2;
          distanceFromCenter = js_div (planetCenterY - windowHeight st / 2) (windowHeight st);
          scrollRotation = scrollY st * (5 / 100 + real index * (2 / 100));
          mouseOffsetX = mouseX st * (10 + real index * 5);
          mouseOffsetY = mouseY st * (10 + real index * 5);
          parallaxY = js_mul distanceFromCenter 30
      in \<lparr> tx = Num mouseOffsetX, ty = js_add mouseOffsetY parallaxY,
            rot = Num scrollRotation \<rparr>)"

text \<open>
  \<open>updatePlanets\<close>, given the rectangles that the layout reports for the planets in
  this cycle, in the order of \<open>this.planets\<close>.
\<close>

definition updatePlanets :: "rect list \<Rightarrow> parallax \<Rightarrow> parallax" where
  "updatePlanets rs st =
     st\<lparr>transforms := map (\<lambda>(index, r). planet_transform st index r) (enumerate 0 rs)\<rparr>"

definition updateProgress :: "parallax \<Rightarrow> parallax" where
  "updateProgress st =
     (case progressBar st of
        None \<Rightarrow> st
      | Some _ \<Rightarrow>
          (let maxScroll = documentHeight st - windowHeight st;
               scrollPercentage = js_mul (js_div (scrollY st) maxScroll) 100
           in st\<lparr>progressBar := Some (Percent (js_min scrollPercentage 100))\<rparr>))"

definition update :: "rect list \<Rightarrow> parallax \<Rightarrow> parallax" where
  "update rs st =
     (let st1 = st\<lparr>mouseX := mouseX st + (targetMouseX st - mouseX st) * (1 / 10)\<rparr>;
          st2 = st1\<lparr>mouseY := mouseY st1 + (targetMouseY st1 - mouseY st1) * (1 / 10)\<rparr>
      in updateProgress (updatePlanets rs st2))"

text \<open>
  \<open>animate\<close>: one \<open>update\<close> per display refresh; the list holds the rectangles reported
  in each of the cycles that have run.
\<close>

fun animate :: "rect list list \<Rightarrow> parallax \<Rightarrow> parallax" where
  "animate [] st = st"
| "animate (rs # frames) st = animate frames (update rs st)"


section \<open>What the claims speak of\<close>

text \<open>A year input is valid when it reads as a finite number from 1957 to 2100.\<close>

definition year_in_range :: "string \<Rightarrow> bool" where
  "year_in_range yr = (case js_Number yr of Num r \<Rightarrow> 1957 \<le> r \<and> r \<le> 2100 | _ \<Rightarrow> False)"


text \<open>The document has the four error elements whose ids start with \<open>p\<close>.\<close>

definition has_error_elements :: "manager \<Rightarrow> string \<Rightarrow> bool" where
  "has_error_elements st p =
     list_all (\<lambda>e. errors st (p @ e) \<noteq> None)
       [''name-error'', ''destination-error'', ''year-error'', ''status-error'']"



text \<open>
  A value that \<open>JSON.stringify\<close> and \<open>JSON.parse\<close> give back as it was: anything but
  a number that is not finite.
\<close>

definition storable :: "jsval \<Rightarrow> bool" where
  "storable v = (val_of_json (json_of_val v) = Some v)"

definition storable_mission :: "mission \<Rightarrow> bool" where
  "storable_mission m =
     list_all storable [id' m, name m, destination m, year m, status m, createdAt m]"

section \<open>Example inputs\<close>

definition stamp_a :: stamp where
  "stamp_a = \<lparr> date_now = 1700000000000, math_random = 1 / 4,
                iso_string = ''2023-11-14T22:13:20.000Z'' \<rparr>"

definition stamp_b :: stamp where
  "stamp_b = \<lparr> date_now = 1700000000000, math_random = 1 / 2,
                iso_string = ''2023-11-14T22:13:20.000Z'' \<rparr>"

definition stamp_c :: stamp where
  "stamp_c = \<lparr> date_now = 1700000000001, math_random = 1 / 8,
                iso_string = ''2023-11-14T22:13:20.001Z'' \<rparr>"

definition mission_x :: mission where
  "mission_x =
     Mission stamp_a ''Voyager 1'' ''Espacio Interestelar'' (YearLiteral 1977) ''active''"

definition mission_y :: mission where
  "mission_y = Mission stamp_b ''Apollo 11'' ''Luna'' (YearLiteral 1969) ''completed''"

text \<open>A page with the four error elements of the create form and of the edit dialog.\<close>

definition page_errors :: "string \<rightharpoonup> string" where
  "page_errors =
     [ ''name-error'' \<mapsto> [], ''destination-error'' \<mapsto> [], ''year-error'' \<mapsto> [],
       ''status-error'' \<mapsto> [], ''edit-name-error'' \<mapsto> [],
       ''edit-destination-error'' \<mapsto> [], ''edit-year-error'' \<mapsto> [],
       ''edit-status-error'' \<mapsto> [] ]"

definition manager_xy :: manager where
  "manager_xy =
     \<lparr> missions = [mission_x, mission_y], storage = None, editingMissionId = Null,
       errors = page_errors, modal_open = False \<rparr>"



definition form_exponent :: formData where
  "form_exponent = \<lparr> fd_name = ''Europa Clipper'', fd_destination = ''Europa'',
                      fd_year = ''.2e4'', fd_status = ''planned'' \<rparr>"


definition parallax_page :: parallax where
  "parallax_page =
     \<lparr> scrollY = 2000, windowHeight = 1000, documentHeight = 3000, mouseX = 1,
       mouseY = - 1, targetMouseX = 0, targetMouseY = 0, transforms = [],
       progressBar = Some Unset \<rparr>"

definition planet_rects :: "rect list" where
  "planet_rects = [\<lparr> top = 100, height = 50 \<rparr>, \<lparr> top = 600, height = 50 \<rparr>]"

section \<open>Evaluating the number readers\<close>

lemmas reader_defs =
  js_Number_def js_trim_def is_ws_def radix_prefix_def unsigned_decimal_def is_digit_def
  exponent_part_def radix_val_def hex_val_def parseInt_text_def is_radix_digit_def js_neg_def

lemma parseInt_default_years:
  "js_parseInt (YearLiteral 1977) = Num 1977"
  "js_parseInt (YearLiteral 1969) = Num 1969"
  "js_parseInt (YearLiteral 2020) = Num 2020"
  by (simp_all add: reader_defs)

section \<open>Loading\<close>

text \<open>
  C1, as stated, at a stored string that is not JSON: the claim has \<open>loadMissions\<close>
  return the default missions there; the call throws a SyntaxError instead.
\<close>

theorem load_malformed_throws:
  "loadMissions stamp_a stamp_b stamp_c (Some Unparseable) = Throws SyntaxError
   \<and> loadMissions stamp_a stamp_b stamp_c (Some Unparseable)
       \<noteq> Returns (getDefaultMissions stamp_a stamp_b stamp_c)"
  by (simp add: loadMissions_def)

text \<open>
  C1, amended: when the key is missing, or holds the empty string, \<open>loadMissions\<close>
  returns the three default missions Voyager 1 (1977, active), Apollo 11 (1969,
  completed) and Mars 2020 (2020, active) in this order, each with the id and the
  creation time that its constructor run read; when the stored string is not empty and
  not JSON, \<open>loadMissions\<close> throws a SyntaxError and returns nothing.
\<close>

theorem load_defaults_or_throws:
  "loadMissions k1 k2 k3 None =
     Returns
       [ \<lparr> id' = Number (Num (date_now k1 + math_random k1)), name = String ''Voyager 1'',
            destination = String ''Espacio Interestelar'', year = Number (Num 1977),
            status = String ''active'', createdAt = String (iso_string k1) \<rparr>,
         \<lparr> id' = Number (Num (date_now k2 + math_random k2)), name = String ''Apollo 11'',
            destination = String ''Luna'', year = Number (Num 1969),
            status = String ''completed'', createdAt = String (iso_string k2) \<rparr>,
         \<lparr> id' = Number (Num (date_now k3 + math_random k3)), name = String ''Mars 2020'',
            destination = String ''Marte'', year = Number (Num 2020),
            status = String ''active'', createdAt = String (iso_string k3) \<rparr> ]
   \<and> loadMissions k1 k2 k3 (Some EmptyText) = loadMissions k1 k2 k3 None
   \<and> loadMissions k1 k2 k3 (Some Unparseable) = Throws SyntaxError"
  by (simp add: loadMissions_def getDefaultMissions_def Mission_def parseInt_default_years
        del: js_parseInt.simps)

section \<open>Deleting and updating\<close>

lemma find_first_match:
  assumes "\<forall>x\<in>set xs. \<not> P x" and "P m"
  shows "find P (xs @ m # ys) = Some m"
    and "length (takeWhile (\<lambda>x. \<not> P x) (xs @ m # ys)) = length xs"
  using assms by (induction xs) auto

lemma find_no_match: "(\<forall>x\<in>set xs. \<not> P x) \<Longrightarrow> find P xs = None"
  by (induction xs) auto

lemma example_ids:
  "js_strict_eq (id' mission_x) (id' mission_x)"
  "js_strict_eq (id' mission_y) (id' mission_y)"
  "\<not> js_strict_eq (id' mission_y) (id' mission_x)"
  "\<not> js_strict_eq (id' mission_x) (id' mission_y)"
  "\<not> js_strict_eq (id' mission_x) (Number (Num 7))"
  "\<not> js_strict_eq (id' mission_y) (Number (Num 7))"
  by (simp_all add: mission_x_def mission_y_def Mission_def stamp_a_def stamp_b_def)

text \<open>
  C2: \<open>deleteMission\<close> keeps, in their order, exactly the missions whose id is not
  strictly equal to the given id, and stores the result. So a collection in which no
  mission has the id is left as it was, and a collection in which one mission has it
  loses that mission and nothing else.
\<close>

theorem deleteMission_exact:
  "missions (deleteMission i st) = filter (\<lambda>m. \<not> js_strict_eq (id' m) i) (missions st)
   \<and> storage (deleteMission i st) = Some (JSON_stringify (missions (deleteMission i st)))
   \<and> ((\<forall>m\<in>set (missions st). \<not> js_strict_eq (id' m) i) \<longrightarrow>
        missions (deleteMission i st) = missions st)
   \<and> (\<forall>xs m ys. missions st = xs @ m # ys \<and> js_strict_eq (id' m) i
        \<and> (\<forall>x\<in>set (xs @ ys). \<not> js_strict_eq (id' x) i) \<longrightarrow>
        missions (deleteMission i st) = xs @ ys)"
  by (auto simp: deleteMission_def saveMissions_def filter_id_conv)

theorem deleteMission_exact_witness:
  "missions (deleteMission (id' mission_x) manager_xy) = [mission_y]
   \<and> missions (deleteMission (Number (Num 7)) manager_xy) = [mission_x, mission_y]"
proof -
  have ms: "missions manager_xy = [] @ mission_x # [mission_y]"
    by (simp add: manager_xy_def)
  from deleteMission_exact [of "id' mission_x" manager_xy] ms example_ids
  have one: "missions (deleteMission (id' mission_x) manager_xy) = [] @ [mission_y]"
    by (simp add: manager_xy_def)
  from deleteMission_exact [of "Number (Num 7)" manager_xy] example_ids
  have none: "missions (deleteMission (Number (Num 7)) manager_xy) = missions manager_xy"
    by (simp add: manager_xy_def)
  from one none show ?thesis by (simp add: manager_xy_def)
qed

text \<open>
  C5: \<open>updateMission\<close> with an id that no mission has returns the manager as it was,
  the storage item included. With an id that some mission has, the first such mission
  gets the new name, destination, year (read by \<open>parseInt\<close>) and status and keeps its
  id and creation time; the missions before and after it stay as they were, and the
  result is stored.
\<close>

theorem updateMission_frame:
  "((\<forall>m\<in>set (missions st). \<not> js_strict_eq (id' m) i) \<longrightarrow>
      updateMission i nm dest yr stat st = st)
   \<and> (\<forall>xs m ys. missions st = xs @ m # ys \<and> js_strict_eq (id' m) i
        \<and> (\<forall>x\<in>set xs. \<not> js_strict_eq (id' x) i) \<longrightarrow>
        missions (updateMission i nm dest yr stat st) =
          xs @ \<lparr> id' = id' m, name = String nm, destination = String dest,
                 year = Number (parseInt_text yr), status = String stat,
                 createdAt = createdAt m \<rparr> # ys
        \<and> storage (updateMission i nm dest yr stat st) =
            Some (JSON_stringify (missions (updateMission i nm dest yr stat st))))"
  by (auto simp: updateMission_def saveMissions_def find_no_match find_first_match Let_def)

theorem updateMission_frame_witness:
  "missions (updateMission (id' mission_y) ''Apollo 12'' ''Luna'' ''1969'' ''completed''
              manager_xy) =
     [ mission_x,
       \<lparr> id' = id' mission_y, name = String ''Apollo 12'', destination = String ''Luna'',
          year = Number (Num 1969), status = String ''completed'',
          createdAt = createdAt mission_y \<rparr> ]
   \<and> updateMission (Number (Num 7)) ''Apollo 12'' ''Luna'' ''1969'' ''completed'' manager_xy
       = manager_xy"
proof -
  have ms: "missions manager_xy = [mission_x] @ mission_y # []"
    by (simp add: manager_xy_def)
  have yr: "parseInt_text ''1969'' = Num 1969"
    by (simp add: reader_defs)
  from updateMission_frame [of manager_xy "id' mission_y" "''Apollo 12''" "''Luna''" "''1969''"
      "''completed''"]
  have step: "\<And>xs m ys. missions manager_xy = xs @ m # ys \<Longrightarrow>
      js_strict_eq (id' m) (id' mission_y) \<Longrightarrow>
      \<forall>x\<in>set xs. \<not> js_strict_eq (id' x) (id' mission_y) \<Longrightarrow>
      missions (updateMission (id' mission_y) ''Apollo 12'' ''Luna'' ''1969''
                ''completed'' manager_xy) =
        xs @ \<lparr> id' = id' m, name = String ''Apollo 12'',
                destination = String ''Luna'', year = Number (parseInt_text ''1969''),
                status = String ''completed'', createdAt = createdAt m \<rparr> # ys"
    by blast
  from step [of "[mission_x]" mission_y "[]"] ms example_ids
  have hit: "missions (updateMission (id' mission_y) ''Apollo 12'' ''Luna'' ''1969''
                ''completed'' manager_xy) =
             [mission_x] @ \<lparr> id' = id' mission_y, name = String ''Apollo 12'',
                destination = String ''Luna'', year = Number (parseInt_text ''1969''),
                status = String ''completed'', createdAt = createdAt mission_y \<rparr> # []"
    by simp
  from updateMission_frame [of manager_xy "Number (Num 7)" "''Apollo 12''" "''Luna''" "''1969''"
      "''completed''"] example_ids
  have miss: "updateMission (Number (Num 7)) ''Apollo 12'' ''Luna'' ''1969'' ''completed''
                manager_xy = manager_xy"
    by (simp add: manager_xy_def)
  from hit miss yr show ?thesis by simp
qed

section \<open>Validation\<close>

lemma js_trim_Nil [simp]: "js_trim [] = []"
  by (simp add: js_trim_def)

lemma js_Number_Nil [simp]: "js_Number [] = Num 0"
  by (simp add: js_Number_def)

lemma year_check:
  "(yr \<noteq> [] \<and> js_Number yr \<noteq> NaN \<and> \<not> js_lt (js_Number yr) MIN_YEAR
     \<and> \<not> js_gt (js_Number yr) MAX_YEAR) = year_in_range yr"
  by (cases "js_Number yr") (auto simp: year_in_range_def MIN_YEAR_def MAX_YEAR_def)


lemma validateField_present:
  "els e \<noteq> None \<Longrightarrow>
   validateField v e msg els =
     Inr (js_trim v \<noteq> [], els(e \<mapsto> (if js_trim v = [] then msg else [])))"
  by (auto simp: validateField_def)

lemma validateYear_present:
  "els e \<noteq> None \<Longrightarrow>
   validateYear yr e els =
     Inr (year_in_range yr,
          els(e \<mapsto> (if yr = [] \<or> js_Number yr = NaN then year_required
                     else if year_in_range yr then [] else year_range)))"
  using year_check [of yr] by (auto simp: validateYear_def)

lemma validateForm_present:
  assumes "has_error_elements st p"
  shows "validateForm fd p (errors st) =
     Inr (js_trim (fd_name fd) \<noteq> [] \<and> js_trim (fd_destination fd) \<noteq> []
            \<and> year_in_range (fd_year fd) \<and> js_trim (fd_status fd) \<noteq> [],
          (errors st)(p @ ''name-error'' \<mapsto>
                (if js_trim (fd_name fd) = [] then ''El nombre es requerido'' else []),
              p @ ''destination-error'' \<mapsto>
                (if js_trim (fd_destination fd) = [] then ''El destino es requerido'' else []),
              p @ ''year-error'' \<mapsto>
                (if fd_year fd = [] \<or> js_Number (fd_year fd) = NaN then year_required
                 else if year_in_range (fd_year fd) then [] else year_range),
              p @ ''status-error'' \<mapsto>
                (if js_trim (fd_status fd) = [] then ''El estado es requerido'' else [])))"
  using assms
  by (simp add: has_error_elements_def validateForm_def validateField_present
      validateYear_present)





lemma manager_xy_elements:
  "has_error_elements manager_xy []" "has_error_elements manager_xy ''edit-''"
  by (simp_all add: has_error_elements_def manager_xy_def page_errors_def)


section \<open>Plain decimal numerals\<close>
















section \<open>Creating\<close>

lemma createMission_result:
  "missions (createMission k nm dest yr stat st) =
     missions st @ [Mission k nm dest (YearText yr) stat]"
  "storage (createMission k nm dest yr stat st) =
     Some (JSON_stringify (missions (createMission k nm dest yr stat st)))"
  by (simp_all add: createMission_def saveMissions_def Let_def)

lemma handleSubmit_valid:
  assumes "has_error_elements st []"
    and "js_trim (fd_name fd) \<noteq> []" "js_trim (fd_destination fd) \<noteq> []"
    and "year_in_range (fd_year fd)" "js_trim (fd_status fd) \<noteq> []"
  shows "\<exists>els. validateForm fd [] (errors st) = Inr (True, els)
           \<and> handleSubmit k fd st =
               Inr (createMission k (fd_name fd) (fd_destination fd) (fd_year fd)
                      (fd_status fd) (st\<lparr>errors := els\<rparr>))"
  using assms(2-) unfolding handleSubmit_def validateForm_present [OF assms(1)] by simp






section \<open>Untrimmed text\<close>




section \<open>Years in exponent notation, and reading the storage back\<close>

lemma exponent_year_reads:
  "js_Number ''.2e4'' = Num 2000" "parseInt_text ''.2e4'' = NaN"
  "js_Number ''2e3'' = Num 2000" "parseInt_text ''2e3'' = Num 2"
  by (simp_all add: reader_defs)

lemma submit_exponent_year:
  "\<exists>els. handleSubmit stamp_c form_exponent manager_xy =
      Inr (createMission stamp_c ''Europa Clipper'' ''Europa'' ''.2e4'' ''planned''
             (manager_xy\<lparr>errors := els\<rparr>))"
proof -
  have "js_trim ''Europa Clipper'' \<noteq> []" "js_trim ''Europa'' \<noteq> []" "js_trim ''planned'' \<noteq> []"
    by (simp_all add: js_trim_def is_ws_def)
  moreover have "year_in_range ''.2e4''"
    by (simp add: year_in_range_def exponent_year_reads)
  ultimately show ?thesis
    using handleSubmit_valid [OF manager_xy_elements(1), of form_exponent stamp_c]
    by (auto simp: form_exponent_def)
qed

text \<open>
  C9 at the year input \<open>.2e4\<close>: it reads as the number 2000, so validation passes, and
  \<open>parseInt\<close> finds no digit at its start, so the record's year is \<open>NaN\<close>, which is no
  integer. (The input \<open>2e3\<close> passes in the same way and is stored as 2.)
\<close>

theorem exponent_year_stored_NaN:
  "year_in_range (fd_year form_exponent)
   \<and> (case handleSubmit stamp_c form_exponent manager_xy of
         Inl e \<Rightarrow> False
       | Inr st' \<Rightarrow> year (last (missions st')) = Number NaN)
   \<and> year_in_range ''2e3'' \<and> parseInt_text ''2e3'' = Num 2"
proof -
  from submit_exponent_year obtain els where
    "handleSubmit stamp_c form_exponent manager_xy =
      Inr (createMission stamp_c ''Europa Clipper'' ''Europa'' ''.2e4'' ''planned''
             (manager_xy\<lparr>errors := els\<rparr>))"
    by blast
  then show ?thesis
    by (simp add: createMission_result Mission_def exponent_year_reads year_in_range_def
        form_exponent_def)
qed

lemma mission_roundtrip:
  assumes "storable_mission m"
  shows "mission_of_json (json_of_mission m) = Some m"
  using assms
  by (simp add: storable_mission_def storable_def mission_of_json_def json_of_mission_def
      mission_keys_def)

lemma those_roundtrip:
  "list_all storable_mission ms \<Longrightarrow>
   those (map (mission_of_json \<circ> json_of_mission) ms) = Some ms"
  by (induction ms) (simp_all add: mission_roundtrip)

lemma reload_storable:
  "list_all storable_mission ms \<Longrightarrow>
   loadMissions k1 k2 k3 (Some (JSON_stringify ms)) = Returns ms"
  by (simp add: loadMissions_def JSON_stringify_def JSON_parse_def those_roundtrip)

lemma example_missions_storable: "storable_mission mission_x" "storable_mission mission_y"
  by (simp_all add: storable_mission_def storable_def mission_x_def mission_y_def Mission_def
      parseInt_default_years del: js_parseInt.simps)

text \<open>
  Where the stored collection does read back as the one in memory: the three
  operations keep a collection storable as long as \<open>parseInt\<close> finds a number in the
  year input.
\<close>

lemma parseInt_storable: "parseInt_text yr \<noteq> NaN \<Longrightarrow> storable (Number (parseInt_text yr))"
  by (auto simp: storable_def parseInt_text_def Let_def split: if_splits)

lemma create_reloads:
  assumes "list_all storable_mission (missions st)" "parseInt_text yr \<noteq> NaN"
  shows "loadMissions k1 k2 k3 (storage (createMission k nm dest yr stat st)) =
           Returns (missions (createMission k nm dest yr stat st))"
proof -
  have "storable_mission (Mission k nm dest (YearText yr) stat)"
    using parseInt_storable [OF assms(2)]
    by (simp add: storable_mission_def Mission_def) (simp add: storable_def)
  with assms(1) show ?thesis
    by (simp add: createMission_result reload_storable)
qed

lemma delete_reloads:
  assumes "list_all storable_mission (missions st)"
  shows "loadMissions k1 k2 k3 (storage (deleteMission i st)) =
           Returns (missions (deleteMission i st))"
  using assms
  by (simp add: deleteMission_def saveMissions_def reload_storable list_all_iff)

lemma update_reloads:
  assumes "list_all storable_mission (missions st)" "parseInt_text yr \<noteq> NaN"
    and "find (\<lambda>m. js_strict_eq (id' m) i) (missions st) \<noteq> None"
  shows "loadMissions k1 k2 k3 (storage (updateMission i nm dest yr stat st)) =
           Returns (missions (updateMission i nm dest yr stat st))"
proof -
  from assms(3) obtain m where m: "find (\<lambda>m. js_strict_eq (id' m) i) (missions st) = Some m"
    by blast
  then have "m \<in> set (missions st)"
    by (auto simp: find_Some_iff)
  with assms(1) have "storable_mission m" by (simp add: list_all_iff)
  then have "storable_mission (m\<lparr>name := String nm, destination := String dest,
      year := Number (parseInt_text yr), status := String stat\<rparr>)"
    using parseInt_storable [OF assms(2)]
    by (simp add: storable_mission_def) (simp add: storable_def)
  with assms(1) have "list_all storable_mission (missions (updateMission i nm dest yr stat st))"
    by (auto simp: updateMission_def m saveMissions_def Let_def list_all_iff
        dest!: set_update_subset_insert [THEN subsetD])
  moreover have "storage (updateMission i nm dest yr stat st) =
      Some (JSON_stringify (missions (updateMission i nm dest yr stat st)))"
    by (simp add: updateMission_def m saveMissions_def Let_def)
  ultimately show ?thesis by (simp add: reload_storable)
qed

text \<open>
  C6 after a create submission with the year input \<open>.2e4\<close>: the record in memory has
  the year \<open>NaN\<close>, the storage item has \<open>null\<close> in its place, and \<open>loadMissions\<close> on
  that item returns a collection whose last record has the year \<open>null\<close>: not the
  collection in memory.
\<close>

theorem reload_after_exponent_year:
  "case handleSubmit stamp_c form_exponent manager_xy of
     Inl e \<Rightarrow> False
   | Inr st' \<Rightarrow>
       loadMissions stamp_a stamp_b stamp_c (storage st') \<noteq> Returns (missions st')
       \<and> loadMissions stamp_a stamp_b stamp_c (storage st') =
           Returns (butlast (missions st') @ [(last (missions st'))\<lparr>year := Null\<rparr>])"
proof -
  from submit_exponent_year obtain els where s:
    "handleSubmit stamp_c form_exponent manager_xy =
      Inr (createMission stamp_c ''Europa Clipper'' ''Europa'' ''.2e4'' ''planned''
             (manager_xy\<lparr>errors := els\<rparr>))"
    by blast
  let ?new = "Mission stamp_c ''Europa Clipper'' ''Europa'' (YearText ''.2e4'') ''planned''"
  have new: "json_of_mission ?new = json_of_mission (?new\<lparr>year := Null\<rparr>)"
    "storable_mission (?new\<lparr>year := Null\<rparr>)" "?new\<lparr>year := Null\<rparr> \<noteq> ?new"
    by (simp_all add: json_of_mission_def Mission_def exponent_year_reads storable_mission_def
        storable_def)
  have "JSON_stringify [mission_x, mission_y, ?new] =
        JSON_stringify [mission_x, mission_y, ?new\<lparr>year := Null\<rparr>]"
    by (simp add: JSON_stringify_def new(1))
  moreover have "list_all storable_mission [mission_x, mission_y, ?new\<lparr>year := Null\<rparr>]"
    using new(2) example_missions_storable by simp
  ultimately have "loadMissions stamp_a stamp_b stamp_c
        (Some (JSON_stringify [mission_x, mission_y, ?new])) =
      Returns [mission_x, mission_y, ?new\<lparr>year := Null\<rparr>]"
    using reload_storable by metis
  moreover have "missions manager_xy = [mission_x, mission_y]"
    by (simp add: manager_xy_def)
  ultimately show ?thesis
    using new(3) by (simp add: s createMission_result)
qed

section \<open>The progress indicator\<close>

lemma update_progressBar: "progressBar (update rs st) = progressBar (updateProgress st)"
  by (simp add: update_def updateProgress_def updatePlanets_def Let_def split: option.splits)

text \<open>
  C7: \<open>updateProgress\<close> returns the controller as it was when the document has no
  progress element. Otherwise, on a page whose document height differs from the
  window height, it sets the width to \<open>min (scrollY / (documentHeight - windowHeight)
  * 100) 100\<close> percent and changes nothing else; every \<open>update\<close> leaves the progress
  element as \<open>updateProgress\<close> does. With a document height of 3000 and a window
  height of 1000, a scroll offset of 2000 gives 100 percent and one of 1000 gives 50
  percent.
\<close>

theorem progress_width:
  "(progressBar st = None \<longrightarrow> updateProgress st = st)
   \<and> (progressBar st \<noteq> None \<and> documentHeight st \<noteq> windowHeight st \<longrightarrow>
        updateProgress st =
          st\<lparr>progressBar := Some (Percent (Num
                (min (scrollY st / (documentHeight st - windowHeight st) * 100) 100)))\<rparr>)
   \<and> progressBar (update rs st) = progressBar (updateProgress st)
   \<and> (progressBar st \<noteq> None \<and> documentHeight st = 3000 \<and> windowHeight st = 1000 \<longrightarrow>
        (scrollY st = 2000 \<longrightarrow> progressBar (updateProgress st) = Some (Percent (Num 100)))
        \<and> (scrollY st = 1000 \<longrightarrow> progressBar (updateProgress st) = Some (Percent (Num 50))))"
  by (auto simp: update_progressBar updateProgress_def js_div_def js_mul_def js_min_def Let_def
      split: option.splits)

theorem progress_width_witness:
  "progressBar (update planet_rects parallax_page) = Some (Percent (Num 100))
   \<and> progressBar (update planet_rects (parallax_page\<lparr>scrollY := 1000\<rparr>))
       = Some (Percent (Num 50))
   \<and> updateProgress (parallax_page\<lparr>progressBar := None\<rparr>)
       = parallax_page\<lparr>progressBar := None\<rparr>"
  using progress_width [of parallax_page planet_rects]
    progress_width [of "parallax_page\<lparr>scrollY := 1000\<rparr>" planet_rects]
    progress_width [of "parallax_page\<lparr>progressBar := None\<rparr>" planet_rects]
  by (simp add: parallax_page_def)

section \<open>Smoothing the pointer offset\<close>

lemma update_mouse:
  "mouseX (update rs st) = mouseX st + (targetMouseX st - mouseX st) * (1 / 10)"
  "mouseY (update rs st) = mouseY st + (targetMouseY st - mouseY st) * (1 / 10)"
  "targetMouseX (update rs st) = targetMouseX st"
  "targetMouseY (update rs st) = targetMouseY st"
  by (simp_all add: update_def updateProgress_def updatePlanets_def Let_def
      split: option.splits)

lemma animate_targets:
  "targetMouseX (animate frames st) = targetMouseX st
   \<and> targetMouseY (animate frames st) = targetMouseY st"
  by (induction frames arbitrary: st) (simp_all add: update_mouse)






end
